theory Spec2Isabelle
  imports Main
begin

section \<open>Errors\<close>

text \<open>
  Python exceptions are values. \<open>ValueError\<close>, \<open>TypeError\<close>, \<open>IndexError\<close>,
  \<open>ZeroDivisionError\<close> and \<open>AttributeError\<close> are the ones that
  \<^verbatim>\<open>table_environment.py\<close> raises itself or that the Python built-ins it calls raise;
  \<open>SchemaError\<close>, \<open>ValidationError\<close>, \<open>ParseError\<close> and \<open>TransportError\<close> are
  the four kinds of the specification's error taxonomy. The string is the message.
\<close>

datatype error =
    ValueError string
  | TypeError string
  | IndexError string
  | ZeroDivisionError string
  | AttributeError string
  | SchemaError string
  | ValidationError string
  | ParseError string
  | TransportError string

section \<open>\<open>StreamTableEnvironment.create\<close>\<close>

text \<open>
  \<open>EnvironmentSettings\<close> as far as \<open>create\<close> reads it: the answer of
  \<open>is_streaming_mode()\<close> and the Java object \<open>_j_environment_settings\<close>.
\<close>

record 'js environment_settings =
  is_streaming_mode :: bool
  j_environment_settings :: 'js

text \<open>
  The four gateway calls that build the Java table environment; the constructor records
  which factory was called and with which Java objects.
\<close>

datatype ('jsee, 'jtc, 'js) j_tenv =
    TableEnvironment_create 'js
  | StreamTableEnvironment_create_settings 'jsee 'js
  | StreamTableEnvironment_create_config 'jsee 'jtc
  | StreamTableEnvironment_create 'jsee

datatype ('jsee, 'jtc, 'js) stream_table_environment =
  StreamTableEnvironment "('jsee, 'jtc, 'js) j_tenv"

text \<open>
  \<open>stream_execution_environment._j_stream_execution_environment\<close>: reading the attribute
  of \<open>None\<close> raises \<open>AttributeError\<close>.
\<close>

definition j_stream_execution_environment :: "'jsee option \<Rightarrow> error + 'jsee" where
  "j_stream_execution_environment see =
     (case see of
        None \<Rightarrow> Inl (AttributeError ''_j_stream_execution_environment'')
      | Some j \<Rightarrow> Inr j)"

text \<open>
  \<open>StreamTableEnvironment.create(stream_execution_environment, table_config,
  environment_settings)\<close>; an argument left out is \<open>None\<close>. The first two tests are an
  \<open>if\<close>/\<open>elif\<close>, the third a separate \<open>if\<close>, then the gateway calls.
\<close>

definition create ::
  "'jsee option \<Rightarrow> 'jtc option \<Rightarrow> 'js environment_settings option
     \<Rightarrow> error + ('jsee, 'jtc, 'js) stream_table_environment" where
  "create stream_execution_environment table_config environment_settings =
     (if stream_execution_environment = None \<and> table_config = None
           \<and> environment_settings = None
      then Inl (ValueError ''No argument found'')
      else if stream_execution_environment = None \<and> table_config \<noteq> None
           \<and> environment_settings = None
      then Inl (ValueError ''Only the param table_config is found'')
      else if table_config \<noteq> None \<and> environment_settings \<noteq> None
      then Inl (ValueError ''table_config and environment_settings at the same time'')
      else
        (case environment_settings of
           Some es \<Rightarrow>
             if \<not> is_streaming_mode es
             then Inl (ValueError ''must be set to streaming mode'')
             else
               (case stream_execution_environment of
                  None \<Rightarrow>
                    Inr (StreamTableEnvironment
                          (TableEnvironment_create (j_environment_settings es)))
                | Some _ \<Rightarrow>
                    (case j_stream_execution_environment stream_execution_environment of
                       Inl e \<Rightarrow> Inl e
                     | Inr j \<Rightarrow>
                         Inr (StreamTableEnvironment
                               (StreamTableEnvironment_create_settings j
                                  (j_environment_settings es)))))
         | None \<Rightarrow>
             (case table_config of
                Some tc \<Rightarrow>
                  (case j_stream_execution_environment stream_execution_environment of
                     Inl e \<Rightarrow> Inl e
                   | Inr j \<Rightarrow>
                       Inr (StreamTableEnvironment
                             (StreamTableEnvironment_create_config j tc)))
              | None \<Rightarrow>
                  (case j_stream_execution_environment stream_execution_environment of
                     Inl e \<Rightarrow> Inl e
                   | Inr j \<Rightarrow>
                       Inr (StreamTableEnvironment (StreamTableEnvironment_create j))))))"

text \<open>The argument combinations that \<open>create\<close> is to reject.\<close>

definition rejected_arguments ::
  "'jsee option \<Rightarrow> 'jtc option \<Rightarrow> 'js environment_settings option \<Rightarrow> bool" where
  "rejected_arguments see tc es \<longleftrightarrow>
     (see = None \<and> tc = None \<and> es = None)
   \<or> (see = None \<and> tc \<noteq> None \<and> es = None)
   \<or> (tc \<noteq> None \<and> es \<noteq> None)
   \<or> (case es of None \<Rightarrow> False | Some s \<Rightarrow> \<not> is_streaming_mode s)"

definition is_ValueError :: "error + 'a \<Rightarrow> bool" where
  "is_ValueError r = (case r of Inl (ValueError _) \<Rightarrow> True | _ \<Rightarrow> False)"

section \<open>Data types and row schemas\<close>

text \<open>
  Modelled from the spec: the classes \<open>DataType\<close>, \<open>RowType\<close> and \<open>RowField\<close> of
  \<^verbatim>\<open>pyflink.table.types\<close> are imported by \<^verbatim>\<open>table_environment.py\<close> and
  not defined in it. The specification's TypeDescriptor is a closed variant of atomic
  types and of the composites row, list and map, each with a nullability flag; a row
  schema is an ordered sequence of named, typed fields.
\<close>

datatype atomic =
    BooleanT | IntegerT | LongT | FloatT | DoubleT | StringT | BytesT
  | DateT | TimeT | TimestampT | DurationT | DecimalT

datatype data_type =
    AtomicType atomic bool
  | ListType data_type bool
  | MapType data_type data_type bool
  | RowType "row_field list" bool
and row_field = RowField string data_type

text \<open>\<open>isinstance(schema, RowType)\<close>.\<close>

fun is_RowType :: "data_type \<Rightarrow> bool" where
  "is_RowType (RowType _ _) = True"
| "is_RowType _ = False"

text \<open>
  \<open>RowType().add(name, data_type)\<close> applied to the empty row type, as line 1418 uses it:
  the row type with the one field \<open>name\<close>.
\<close>

definition RowType_add :: "string \<Rightarrow> data_type \<Rightarrow> data_type" where
  "RowType_add name dt = RowType [RowField name dt] True"

section \<open>Python sequencing of fallible steps\<close>

text \<open>
  A list comprehension, or \<open>list(map(f, xs))\<close>, over a function that may raise: the
  elements are processed in order and the first exception ends the whole expression.
\<close>

fun mapM :: "('a \<Rightarrow> error + 'b) \<Rightarrow> 'a list \<Rightarrow> error + 'b list" where
  "mapM f [] = Inr []"
| "mapM f (x # xs) =
     (case f x of
        Inl e \<Rightarrow> Inl e
      | Inr y \<Rightarrow> (case mapM f xs of Inl e \<Rightarrow> Inl e | Inr ys \<Rightarrow> Inr (y # ys)))"

section \<open>The world outside the interpreter\<close>

text \<open>
  What the two table constructors change outside their own variables: the temporary
  directories and files that exist (named by numbers, a file with its content), the file
  handles that are open, the next unused name, and the calls that reached the Java
  gateway with data.
\<close>

datatype 'e jvm_call =
    FromValues data_type "'e list"
  | ReadPythonObjects nat "nat list"
  | CreateArrowTableSource nat "nat list"

record 'e world =
  temp_dirs :: "nat set"
  temp_files :: "nat \<rightharpoonup> nat list"
  open_files :: "nat set"
  next_name :: nat
  jvm_calls :: "'e jvm_call list"

text \<open>\<open>tempfile.mkdtemp()\<close>: a new directory; its name is returned.\<close>

definition mkdtemp :: "'e world \<Rightarrow> nat \<times> 'e world" where
  "mkdtemp w =
     (next_name w,
      w\<lparr>temp_dirs := insert (next_name w) (temp_dirs w), next_name := Suc (next_name w)\<rparr>)"

text \<open>
  \<open>tempfile.NamedTemporaryFile(delete=False, dir=d)\<close>: a new, empty file in \<open>d\<close>, opened
  for writing. With \<open>delete=False\<close> closing the handle leaves the file in place.
\<close>

definition NamedTemporaryFile :: "nat \<Rightarrow> 'e world \<Rightarrow> nat \<times> 'e world" where
  "NamedTemporaryFile d w =
     (next_name w,
      w\<lparr>temp_files := (temp_files w)(next_name w \<mapsto> []),
        open_files := insert (next_name w) (open_files w),
        next_name := Suc (next_name w)\<rparr>)"

text \<open>Writing to the open file, leaving the \<open>with temp_file:\<close> block, and \<open>os.unlink\<close>.\<close>

definition write_file :: "nat \<Rightarrow> nat list \<Rightarrow> 'e world \<Rightarrow> 'e world" where
  "write_file f bytes w = w\<lparr>temp_files := (temp_files w)(f \<mapsto> bytes)\<rparr>"

definition close_file :: "nat \<Rightarrow> 'e world \<Rightarrow> 'e world" where
  "close_file f w = w\<lparr>open_files := open_files w - {f}\<rparr>"

definition unlink :: "nat \<Rightarrow> 'e world \<Rightarrow> 'e world" where
  "unlink f w = w\<lparr>temp_files := (temp_files w)(f := None)\<rparr>"

definition log_call :: "'e jvm_call \<Rightarrow> 'e world \<Rightarrow> 'e world" where
  "log_call c w = w\<lparr>jvm_calls := jvm_calls w @ [c]\<rparr>"

section \<open>\<open>TableEnvironment.from_elements\<close>\<close>

text \<open>
  The functions that \<open>from_elements\<close> and \<open>_from_elements\<close> call and that are defined in
  other modules (\<^verbatim>\<open>pyflink.table.types\<close>, \<^verbatim>\<open>pyflink.serializers\<close>, the Java
  gateway) are parameters. \<open>'e\<close> is the type of the Python elements, \<open>'s\<close> of the
  converted rows, \<open>'j\<close> of Java type information and \<open>'t\<close> of Java tables.
  \<^item> \<open>create_type_verifier dt name obj\<close> is \<open>_create_type_verifier(dt, name=name)(obj)\<close>,
    which raises or returns;
  \<^item> \<open>infer_schema_from_data\<close> is \<open>_infer_schema_from_data(elements, names=...)\<close>;
  \<^item> \<open>create_converter sch obj\<close> is \<open>_create_converter(sch)(obj)\<close>;
  \<^item> \<open>to_sql_type sch obj\<close> is \<open>sch.to_sql_type(obj)\<close>;
  \<^item> \<open>is_Expression obj\<close> is \<open>isinstance(obj, Expression)\<close>;
  \<^item> \<open>fromValues\<close> stands for \<open>self._j_tenv.fromValues(_to_java_data_type(schema),
    to_expression_jarray(elements))\<close>;
  \<^item> \<open>serialize rows\<close> is \<open>BatchedSerializer(self._serializer).serialize(rows, file)\<close>:
    the bytes it wrote and the exception that ended it, if any;
  \<^item> \<open>to_java_type\<close> is \<open>_to_java_type(schema)\<close>;
  \<^item> \<open>fromTableSource\<close> stands for lines 1474 to 1486: reading the objects back from the
    file in the JVM and building the table source and the table.
\<close>

record ('e, 's, 'j, 't) helpers =
  create_type_verifier :: "data_type \<Rightarrow> string option \<Rightarrow> 'e \<Rightarrow> error + unit"
  infer_schema_from_data :: "'e list \<Rightarrow> string list option \<Rightarrow> error + data_type"
  create_converter :: "data_type \<Rightarrow> 'e \<Rightarrow> error + 'e"
  to_sql_type :: "data_type \<Rightarrow> 'e \<Rightarrow> error + 's"
  is_Expression :: "'e \<Rightarrow> bool"
  fromValues :: "data_type \<Rightarrow> 'e list \<Rightarrow> error + 't"
  serialize :: "'s list \<Rightarrow> nat list \<times> error option"
  to_java_type :: "data_type \<Rightarrow> error + 'j"
  fromTableSource :: "'j \<Rightarrow> nat list \<Rightarrow> error + 't"

text \<open>
  The \<open>schema\<close> argument of \<open>from_elements\<close> as its \<open>isinstance\<close> tests see it: \<open>None\<close>, a
  list or tuple of field names, a \<open>DataType\<close> (a \<open>RowType\<close> is one), or an object of any
  other class.
\<close>

datatype schema_arg =
    NoSchema
  | Names "string list"
  | Type data_type
  | Unsupported string

datatype 't table = Table 't

text \<open>
  \<open>_from_elements(elements, schema)\<close>, lines 1467 to 1488. The temporary file is created
  in a directory made by \<open>mkdtemp\<close>; the \<open>with\<close> block closes the file whether
  \<open>serialize\<close> raises or not; the \<open>finally\<close> clause unlinks the file on every path out of
  the \<open>try\<close>.
\<close>

definition from_elements' ::
  "('e, 's, 'j, 't) helpers \<Rightarrow> 's list \<Rightarrow> data_type \<Rightarrow> 'e world
     \<Rightarrow> (error + 't table) \<times> 'e world" where
  "from_elements' h elements schema w =
     (let (d, w1) = mkdtemp w;
          (temp_file, w2) = NamedTemporaryFile d w1;
          (bytes, raised) = serialize h elements;
          w3 = close_file temp_file (write_file temp_file bytes w2)
      in case raised of
           Some e \<Rightarrow> (Inl e, unlink temp_file w3)
         | None \<Rightarrow>
             (case to_java_type h schema of
                Inl e \<Rightarrow> (Inl e, unlink temp_file w3)
              | Inr row_type_info \<Rightarrow>
                  (let w4 = log_call (ReadPythonObjects temp_file bytes) w3
                   in case fromTableSource h row_type_info bytes of
                        Inl e \<Rightarrow> (Inl e, unlink temp_file w4)
                      | Inr j_table \<Rightarrow> (Inr (Table j_table), unlink temp_file w4))))"

text \<open>
  Lines 1410 to 1428: the schema after the first \<open>if\<close>/\<open>elif\<close>/\<open>else\<close> and the function
  \<open>verify_obj\<close> it defines. With \<open>verify_schema\<close> false, \<open>verify_func\<close> is
  \<open>lambda _: True\<close>.
\<close>

definition verify_obj ::
  "('e, 's, 'j, 't) helpers \<Rightarrow> schema_arg \<Rightarrow> bool \<Rightarrow> 'e \<Rightarrow> error + 'e" where
  "verify_obj h schema verify_schema obj =
     (case schema of
        Type dt \<Rightarrow>
          if is_RowType dt then
            (case (if verify_schema then create_type_verifier h dt None obj else Inr ()) of
               Inl e \<Rightarrow> Inl e | Inr _ \<Rightarrow> Inr obj)
          else
            (case (if verify_schema
                   then create_type_verifier h dt (Some ''field value'') obj else Inr ()) of
               Inl e \<Rightarrow> Inl e | Inr _ \<Rightarrow> Inr obj)
      | _ \<Rightarrow> Inr obj)"

definition wrap_schema :: "schema_arg \<Rightarrow> schema_arg" where
  "wrap_schema schema =
     (case schema of
        Type dt \<Rightarrow> if is_RowType dt then Type dt else Type (RowType_add ''value'' dt)
      | _ \<Rightarrow> schema)"

text \<open>
  Lines 1431 to 1440: inference of the schema when none or only names are given, with
  the inferred converter applied to every element by \<open>list(elements)\<close>; a schema that is
  by now neither inferred nor a \<open>RowType\<close> is a \<open>TypeError\<close>.
\<close>

definition infer_stage ::
  "('e, 's, 'j, 't) helpers \<Rightarrow> 'e list \<Rightarrow> schema_arg \<Rightarrow> error + (data_type \<times> 'e list)" where
  "infer_stage h elements schema =
     (case schema of
        NoSchema \<Rightarrow>
          (case infer_schema_from_data h elements None of
             Inl e \<Rightarrow> Inl e
           | Inr sch \<Rightarrow>
               (case mapM (create_converter h sch) elements of
                  Inl e \<Rightarrow> Inl e | Inr es \<Rightarrow> Inr (sch, es)))
      | Names names \<Rightarrow>
          (case infer_schema_from_data h elements (Some names) of
             Inl e \<Rightarrow> Inl e
           | Inr sch \<Rightarrow>
               (case mapM (create_converter h sch) elements of
                  Inl e \<Rightarrow> Inl e | Inr es \<Rightarrow> Inr (sch, es)))
      | Type dt \<Rightarrow>
          if \<not> is_RowType dt
          then Inl (TypeError ''schema should be RowType, list, tuple or None'')
          else Inr (dt, elements)
      | Unsupported _ \<Rightarrow> Inl (TypeError ''schema should be RowType, list, tuple or None''))"

text \<open>
  Lines 1455 to 1457: \<open>map(verify_obj, elements)\<close> is lazy, so the list comprehension
  verifies and then converts one element after the other.
\<close>

definition verify_and_convert ::
  "('e, 's, 'j, 't) helpers \<Rightarrow> schema_arg \<Rightarrow> bool \<Rightarrow> data_type \<Rightarrow> 'e list \<Rightarrow> error + 's list" where
  "verify_and_convert h schema verify_schema sch elements =
     mapM (\<lambda>obj. case verify_obj h schema verify_schema obj of
                    Inl e \<Rightarrow> Inl e
                  | Inr element \<Rightarrow> to_sql_type h sch element) elements"

text \<open>
  \<open>from_elements(elements, schema, verify_schema)\<close>. After line 1440 \<open>schema\<close> is a row
  type on every path that has not raised, so the test \<open>schema is None\<close> of line 1444 is
  false there and the call of \<open>fromValues\<close> that passes the schema is the one taken.
\<close>

definition from_elements ::
  "('e, 's, 'j, 't) helpers \<Rightarrow> 'e list \<Rightarrow> schema_arg \<Rightarrow> bool \<Rightarrow> 'e world
     \<Rightarrow> (error + 't table) \<times> 'e world" where
  "from_elements h elements schema verify_schema w =
     (case infer_stage h elements (wrap_schema schema) of
        Inl e \<Rightarrow> (Inl e, w)
      | Inr (sch, es) \<Rightarrow>
          if length es > 0 \<and> list_all (is_Expression h) es then
            (case fromValues h sch es of
               Inl e \<Rightarrow> (Inl e, log_call (FromValues sch es) w)
             | Inr j_table \<Rightarrow> (Inr (Table j_table), log_call (FromValues sch es) w))
          else if list_ex (is_Expression h) es then
            (Inl (ValueError ''part of the elements are Expression, while the others are not''), w)
          else
            (case verify_and_convert h schema verify_schema sch es of
               Inl e \<Rightarrow> (Inl e, w)
             | Inr rows \<Rightarrow> from_elements' h rows sch w))"

section \<open>\<open>TableEnvironment.from_pandas\<close>\<close>

text \<open>
  A pandas \<open>DataFrame\<close> as \<open>from_pandas\<close> reads it: the fields of
  \<open>pa.Schema.from_pandas(pdf, preserve_index=False)\<close>, the columns (each a list of
  cells) and \<open>len(pdf)\<close>, the number of rows. \<open>'at\<close> is the type of Arrow types and
  \<open>'c\<close> of cells.
\<close>

record 'at arrow_field =
  field_name :: string
  field_type :: 'at
  field_nullable :: bool

record ('at, 'c) data_frame =
  pa_schema :: "'at arrow_field list"
  columns :: "'c list list"
  len :: nat

datatype ('at, 'c) pdf_arg =
    DataFrame "('at, 'c) data_frame"
  | NotDataFrame string

text \<open>
  The \<open>schema\<close> argument of \<open>from_pandas\<close> as its tests see it: \<open>None\<close>, a \<open>DataType\<close>,
  a list or tuple of strings, a list or tuple of \<open>DataType\<close>s, or anything else. Only
  \<open>schema[0]\<close> is inspected, so a list is taken to hold items of one kind; the empty
  list is \<open>NameList []\<close> or \<open>TypeList []\<close>.
\<close>

datatype pandas_schema_arg =
    NoPandasSchema
  | PandasType data_type
  | NameList "string list"
  | TypeList "data_type list"
  | UnsupportedSchema string

text \<open>
  The functions of other modules that \<open>from_pandas\<close> calls:
  \<^item> \<open>from_arrow_type t nullable\<close> is \<open>from_arrow_type(field.type, field.nullable)\<close>;
  \<^item> \<open>ArrowSerializer\<close> stands for lines 1548 to 1551, the construction of the
    serializer from \<open>create_arrow_schema\<close>, the result type and the time zone;
  \<^item> \<open>serialize_arrow ser data\<close> is \<open>serializer.serialize(data, temp_file)\<close>: the bytes
    written and the exception that ended it, if any;
  \<^item> \<open>createArrowTableSource\<close> stands for lines 1558 to 1568, the gateway calls that
    build the table from the file.
\<close>

record ('at, 'c, 'ser, 't) pandas_helpers =
  from_arrow_type :: "'at \<Rightarrow> bool \<Rightarrow> error + data_type"
  ArrowSerializer :: "data_type \<Rightarrow> error + 'ser"
  serialize_arrow :: "'ser \<Rightarrow> 'c list list list \<Rightarrow> nat list \<times> error option"
  createArrowTableSource :: "data_type \<Rightarrow> nat list \<Rightarrow> error + 't"

text \<open>
  Lines 1527 to 1543: the result type. \<open>zip\<close> stops at the end of the shorter of its
  two arguments, in Python as in HOL; \<open>schema[0]\<close> of an empty list raises
  \<open>IndexError\<close>.
\<close>

definition result_type ::
  "('at, 'c, 'ser, 't) pandas_helpers \<Rightarrow> 'at arrow_field list \<Rightarrow> pandas_schema_arg
     \<Rightarrow> error + data_type" where
  "result_type h arrow_schema schema =
     (case schema of
        NoPandasSchema \<Rightarrow>
          (case mapM (\<lambda>field. case from_arrow_type h (field_type field) (field_nullable field) of
                                Inl e \<Rightarrow> Inl e
                              | Inr t \<Rightarrow> Inr (RowField (field_name field) t)) arrow_schema of
             Inl e \<Rightarrow> Inl e
           | Inr row_fields \<Rightarrow> Inr (RowType row_fields True))
      | PandasType dt \<Rightarrow>
          if is_RowType dt then Inr dt
          else Inl (TypeError ''Unsupported schema type'')
      | NameList names \<Rightarrow>
          if names = [] then Inl (IndexError ''list index out of range'')
          else
            (case mapM (\<lambda>(name, field).
                          case from_arrow_type h (field_type field) (field_nullable field) of
                            Inl e \<Rightarrow> Inl e
                          | Inr t \<Rightarrow> Inr (RowField name t)) (zip names arrow_schema) of
               Inl e \<Rightarrow> Inl e
             | Inr row_fields \<Rightarrow> Inr (RowType row_fields True))
      | TypeList types \<Rightarrow>
          if types = [] then Inl (IndexError ''list index out of range'')
          else Inr (RowType (map (\<lambda>(name, t). RowField name t)
                                (zip (map field_name arrow_schema) types)) True)
      | UnsupportedSchema _ \<Rightarrow> Inl (TypeError ''Unsupported schema type''))"

text \<open>
  \<open>range(0, n, step)\<close> for \<open>n \<ge> 0\<close>: \<open>ValueError\<close> for a zero step, empty for a negative
  one, else the multiples of \<open>step\<close> below \<open>n\<close>.
\<close>

definition range0 :: "nat \<Rightarrow> int \<Rightarrow> error + nat list" where
  "range0 n step =
     (if step = 0 then Inl (ValueError ''range() arg 3 must not be zero'')
      else if step < 0 then Inr []
      else Inr (map (\<lambda>k. k * nat step) [0 ..< (n + nat step - 1) div nat step]))"

text \<open>
  Lines 1552 to 1554: \<open>step = -(-len(pdf) // splits_num)\<close> with Python's floor division,
  which raises \<open>ZeroDivisionError\<close> for \<open>splits_num = 0\<close>; then the row slices
  \<open>pdf.iloc[start:start + step]\<close>, each as the list of its columns.
\<close>

definition pdf_data :: "('at, 'c) data_frame \<Rightarrow> int \<Rightarrow> error + 'c list list list" where
  "pdf_data pdf splits_num =
     (if splits_num = 0 then Inl (ZeroDivisionError ''integer division or modulo by zero'')
      else
        (let step = - ((- int (len pdf)) div splits_num)
         in case range0 (len pdf) step of
              Inl e \<Rightarrow> Inl e
            | Inr starts \<Rightarrow>
                Inr (map (\<lambda>start. map (\<lambda>c. take (nat step) (drop start c)) (columns pdf))
                       starts)))"

text \<open>
  \<open>from_pandas(pdf, schema, splits_num)\<close>. The temporary file is created at line 1546;
  the serializer and the slices are computed after that and before the \<open>try\<close> of line
  1555, so an exception there leaves the function without passing through the
  \<open>with\<close> block or the \<open>finally\<close> clause.
\<close>

definition from_pandas ::
  "('at, 'c, 'ser, 't) pandas_helpers \<Rightarrow> ('at, 'c) pdf_arg \<Rightarrow> pandas_schema_arg \<Rightarrow> int
     \<Rightarrow> 'e world \<Rightarrow> (error + 't table) \<times> 'e world" where
  "from_pandas h pdf_arg schema splits_num w =
     (case pdf_arg of
        NotDataFrame _ \<Rightarrow> (Inl (TypeError ''Unsupported type, expected pandas.DataFrame''), w)
      | DataFrame pdf \<Rightarrow>
          (case result_type h (pa_schema pdf) schema of
             Inl e \<Rightarrow> (Inl e, w)
           | Inr rt \<Rightarrow>
               (let (d, w1) = mkdtemp w;
                    (temp_file, w2) = NamedTemporaryFile d w1
                in case ArrowSerializer h rt of
                     Inl e \<Rightarrow> (Inl e, w2)
                   | Inr serializer \<Rightarrow>
                       (case pdf_data pdf splits_num of
                          Inl e \<Rightarrow> (Inl e, w2)
                        | Inr data \<Rightarrow>
                            (let (bytes, raised) = serialize_arrow h serializer data;
                                 w3 = close_file temp_file (write_file temp_file bytes w2)
                             in case raised of
                                  Some e \<Rightarrow> (Inl e, unlink temp_file w3)
                                | None \<Rightarrow>
                                    (let w4 = log_call (CreateArrowTableSource temp_file bytes) w3
                                     in case createArrowTableSource h rt bytes of
                                          Inl e \<Rightarrow> (Inl e, unlink temp_file w4)
                                        | Inr j_table \<Rightarrow>
                                            (Inr (Table j_table), unlink temp_file w4)))))))"

section \<open>Raw records\<close>

text \<open>
  Modelled from the spec: the Python values that \<open>from_elements\<close> receives are not
  described by \<^verbatim>\<open>table_environment.py\<close>. The specification's RawRecord has four
  shapes: ordered tuple, named mapping, sequence, and a structured row that carries
  positional values and optional field names. A field value is null, an atomic value
  (tagged with its atomic type; the payload is its literal text and is never inspected)
  or again a composite. A mapping is kept in its own key order, as an association list.
\<close>

datatype raw =
    Null
  | Atom atomic string
  | Tuple "raw list"
  | Mapping "(string \<times> raw) list"
  | Sequence "raw list"
  | Row "raw list" "string list option"

datatype shape = TupleShape | MappingShape | SequenceShape | RowShape

fun record_shape :: "raw \<Rightarrow> shape option" where
  "record_shape (Tuple _) = Some TupleShape"
| "record_shape (Mapping _) = Some MappingShape"
| "record_shape (Sequence _) = Some SequenceShape"
| "record_shape (Row _ _) = Some RowShape"
| "record_shape _ = None"

fun record_arity :: "raw \<Rightarrow> nat" where
  "record_arity (Tuple vs) = length vs"
| "record_arity (Mapping kvs) = length kvs"
| "record_arity (Sequence vs) = length vs"
| "record_arity (Row vs _) = length vs"
| "record_arity _ = 0"

text \<open>The field names a record carries itself, in its own order.\<close>

fun record_names :: "raw \<Rightarrow> string list option" where
  "record_names (Mapping kvs) = Some (map fst kvs)"
| "record_names (Row _ names) = names"
| "record_names _ = None"

text \<open>
  The value a record holds for the column at position \<open>i\<close> whose name, in the first
  record, is \<open>name\<close>: a mapping is read by name, every other shape by position. A
  missing value reads as null; inference rejects such records before it reads them.
\<close>

fun column_value :: "nat \<Rightarrow> string \<Rightarrow> raw \<Rightarrow> raw" where
  "column_value i name (Mapping kvs) = (case map_of kvs name of Some v \<Rightarrow> v | None \<Rightarrow> Null)"
| "column_value i name (Tuple vs) = (if i < length vs then vs ! i else Null)"
| "column_value i name (Sequence vs) = (if i < length vs then vs ! i else Null)"
| "column_value i name (Row vs _) = (if i < length vs then vs ! i else Null)"
| "column_value i name _ = Null"

section \<open>Schema inference\<close>

text \<open>
  Modelled from the spec: \<open>_infer_schema_from_data\<close> is defined in
  \<^verbatim>\<open>pyflink.table.types\<close>, which is not part of the sources at hand. The definitions
  of this section follow the specification of \<open>infer_schema\<close> for an absent or names-only
  hint: the first record fixes the shape, the arity and the field names; every record
  must agree with it; each column gets the narrowest common type of its values, widened
  along the chain boolean, integer, long, float, double; and inference fails with a
  \<open>SchemaError\<close> for records of different arity or shape, for a name hint whose length
  is not the arity, and for a column whose values have no common type.
\<close>

text \<open>
  Modelled from the spec: the position of an atomic type in the widening chain
  boolean, integer, long, float, double, if it is on it.
\<close>

fun chain_rank :: "atomic \<Rightarrow> nat option" where
  "chain_rank BooleanT = Some 0"
| "chain_rank IntegerT = Some 1"
| "chain_rank LongT = Some 2"
| "chain_rank FloatT = Some 3"
| "chain_rank DoubleT = Some 4"
| "chain_rank _ = None"

text \<open>
  Modelled from the spec: the join of two atomic types. Equal types join to
  themselves, two types of the chain to the higher one, and no other two types have a
  join (string and byte array never widen into a numeric type).
\<close>

definition widen :: "atomic \<Rightarrow> atomic \<Rightarrow> atomic option" where
  "widen a b =
     (if a = b then Some a
      else case (chain_rank a, chain_rank b) of
             (Some m, Some n) \<Rightarrow> Some (if m \<le> n then b else a)
           | _ \<Rightarrow> None)"


text \<open>
  Modelled from the spec: the type of one column from its values, top to bottom. \<open>acc\<close> is the join so far
  (none before the first typed value) and \<open>nullable\<close> tells whether a null was seen. A
  composite value inside a column is not covered by the documented widening rules and is
  rejected.
\<close>

fun infer_column_from :: "atomic option \<Rightarrow> bool \<Rightarrow> raw list \<Rightarrow> error + data_type" where
  "infer_column_from None nullable [] = Inl (SchemaError ''column type cannot be determined'')"
| "infer_column_from (Some t) nullable [] = Inr (AtomicType t nullable)"
| "infer_column_from acc nullable (Null # vs) = infer_column_from acc True vs"
| "infer_column_from None nullable (Atom a _ # vs) = infer_column_from (Some a) nullable vs"
| "infer_column_from (Some t) nullable (Atom a _ # vs) =
     (case widen t a of
        None \<Rightarrow> Inl (SchemaError ''cannot reconcile the types of a column'')
      | Some u \<Rightarrow> infer_column_from (Some u) nullable vs)"
| "infer_column_from acc nullable (_ # vs) = Inl (SchemaError ''untypeable value'')"

definition infer_column :: "raw list \<Rightarrow> error + data_type" where
  "infer_column vs = infer_column_from None False vs"

text \<open>Generated field names \<open>_1\<close>, \<open>_2\<close>, ... as the docstring of \<open>from_elements\<close> shows them.\<close>

definition digit_char :: "nat \<Rightarrow> char" where
  "digit_char n = ''0123456789'' ! (n mod 10)"

fun decimal :: "nat \<Rightarrow> string" where
  "decimal n = (if n < 10 then [digit_char n] else decimal (n div 10) @ [digit_char (n mod 10)])"

definition generated_names :: "nat \<Rightarrow> string list" where
  "generated_names n = map (\<lambda>i. CHR ''_'' # decimal (Suc i)) [0 ..< n]"

text \<open>
  Modelled from the spec: a record agrees with the first one when it has the same shape and arity and, where
  records carry names, as many names as values and the same set of names.
\<close>

definition same_shape :: "raw \<Rightarrow> raw \<Rightarrow> bool" where
  "same_shape first r \<longleftrightarrow>
     record_shape r = record_shape first
   \<and> record_arity r = record_arity first
   \<and> (case record_names r of None \<Rightarrow> True | Some names \<Rightarrow> length names = record_arity r)
   \<and> map_option set (record_names r) = map_option set (record_names first)"

text \<open>
  Modelled from the spec: the columns of the records, as the first record gives them: the position of each
  column and its name, the first record's own or a generated one.
\<close>

definition record_columns :: "raw \<Rightarrow> (nat \<times> string) list" where
  "record_columns first =
     zip [0 ..< record_arity first]
       (case record_names first of
          Some names \<Rightarrow> names
        | None \<Rightarrow> generated_names (record_arity first))"

text \<open>
  Modelled from the spec: \<open>infer_schema(records, name_hint)\<close> for an absent hint
  (\<open>None\<close>) or a list of names. The checks come in this order: no records, a first
  record that is not of one of the four shapes, records that do not agree with the
  first, a name hint of the wrong length, and then the columns from left to right.
\<close>

definition infer_schema :: "raw list \<Rightarrow> string list option \<Rightarrow> error + data_type" where
  "infer_schema records name_hint =
     (case records of
        [] \<Rightarrow> Inl (SchemaError ''cannot infer a schema from no records'')
      | first # _ \<Rightarrow>
          if record_shape first = None
          then Inl (SchemaError ''the first record is not a tuple, mapping, sequence or row'')
          else if \<not> list_all (same_shape first) records
          then Inl (SchemaError ''records of different arity or shape'')
          else
            (case (case name_hint of
                     None \<Rightarrow> Inr (map snd (record_columns first))
                   | Some names \<Rightarrow>
                       if length names = record_arity first then Inr names
                       else Inl (SchemaError ''the number of names is not the arity'')) of
               Inl e \<Rightarrow> Inl e
             | Inr names \<Rightarrow>
                 (case mapM (\<lambda>(i, name). infer_column (map (column_value i name) records))
                         (record_columns first) of
                    Inl e \<Rightarrow> Inl e
                  | Inr types \<Rightarrow>
                      Inr (RowType (map (\<lambda>(name, t). RowField name t) (zip names types))
                             True))))"



section \<open>Verification and conversion of records\<close>

text \<open>
  Modelled from the spec: \<open>_create_type_verifier\<close> and \<open>RowType.to_sql_type\<close> are
  defined in \<^verbatim>\<open>pyflink.table.types\<close>, which is not part of the sources at hand. The
  definitions of this section follow the specification of \<open>verify\<close> and \<open>convert\<close>.
  \<open>verify\<close> checks, field by field, that the value is compatible with the field's type,
  nullability included. \<open>convert\<close> maps every value into the engine's row
  representation and recurses into composite fields; the fields of the result are in
  the schema's order, and a record with names is read by name. A record that is not one
  of the four shapes is, under a one-field schema, the value of that field.
\<close>

datatype engine =
    ENull
  | EAtom atomic string
  | EList "engine list"
  | EMap "string \<Rightarrow> engine option"
  | ERow "engine list"

fun nullable :: "data_type \<Rightarrow> bool" where
  "nullable (AtomicType _ n) = n"
| "nullable (ListType _ n) = n"
| "nullable (MapType _ _ n) = n"
| "nullable (RowType _ n) = n"

text \<open>
  Modelled from the spec: the value of a named field in a record with names; a missing
  field is a \<open>ValidationError\<close>.
\<close>

fun lookup_field :: "(string \<times> raw) list \<Rightarrow> string \<Rightarrow> error + raw" where
  "lookup_field kvs name =
     (case map_of kvs name of
        None \<Rightarrow> Inl (ValidationError (''missing field '' @ name))
      | Some v \<Rightarrow> Inr v)"

text \<open>
  Modelled from the spec: \<open>convert(schema, record)\<close>. A null converts to the engine's
  null; an atomic value keeps its type tag and payload; a list converts element by
  element, a map value by value; under a row type a tuple, a sequence and a row without
  names are read by position, a mapping and a row with names by name, field after field
  in the schema's order. A value of the wrong shape is a \<open>ValidationError\<close>.
\<close>

fun convert :: "data_type \<Rightarrow> raw \<Rightarrow> error + engine"
and convert_positional :: "row_field list \<Rightarrow> raw list \<Rightarrow> error + engine list"
and convert_named :: "row_field list \<Rightarrow> (string \<times> raw) list \<Rightarrow> error + engine list"
and convert_each :: "data_type \<Rightarrow> raw list \<Rightarrow> error + engine list" where
  "convert dt Null = Inr ENull"
| "convert (AtomicType t n) (Atom a p) = Inr (EAtom a p)"
| "convert (AtomicType t n) _ = Inl (ValidationError ''an atomic value is expected'')"
| "convert (ListType t n) (Sequence vs) =
     (case convert_each t vs of Inl e \<Rightarrow> Inl e | Inr es \<Rightarrow> Inr (EList es))"
| "convert (ListType t n) (Tuple vs) =
     (case convert_each t vs of Inl e \<Rightarrow> Inl e | Inr es \<Rightarrow> Inr (EList es))"
| "convert (ListType t n) _ = Inl (ValidationError ''a sequence is expected'')"
| "convert (MapType k t n) (Mapping kvs) =
     (case convert_each t (map snd kvs) of
        Inl e \<Rightarrow> Inl e
      | Inr es \<Rightarrow> Inr (EMap (map_of (zip (map fst kvs) es))))"
| "convert (MapType k t n) _ = Inl (ValidationError ''a mapping is expected'')"
| "convert (RowType fs n) (Tuple vs) =
     (case convert_positional fs vs of Inl e \<Rightarrow> Inl e | Inr es \<Rightarrow> Inr (ERow es))"
| "convert (RowType fs n) (Sequence vs) =
     (case convert_positional fs vs of Inl e \<Rightarrow> Inl e | Inr es \<Rightarrow> Inr (ERow es))"
| "convert (RowType fs n) (Row vs None) =
     (case convert_positional fs vs of Inl e \<Rightarrow> Inl e | Inr es \<Rightarrow> Inr (ERow es))"
| "convert (RowType fs n) (Row vs (Some names)) =
     (case convert_named fs (zip names vs) of Inl e \<Rightarrow> Inl e | Inr es \<Rightarrow> Inr (ERow es))"
| "convert (RowType fs n) (Mapping kvs) =
     (case convert_named fs kvs of Inl e \<Rightarrow> Inl e | Inr es \<Rightarrow> Inr (ERow es))"
| "convert (RowType fs n) (Atom a p) =
     (case fs of
        [RowField name t] \<Rightarrow>
          (case convert t (Atom a p) of Inl e \<Rightarrow> Inl e | Inr v \<Rightarrow> Inr (ERow [v]))
      | _ \<Rightarrow> Inl (ValidationError ''a record is expected''))"
| "convert_positional [] [] = Inr []"
| "convert_positional (RowField name t # fs) (v # vs) =
     (case convert t v of
        Inl e \<Rightarrow> Inl e
      | Inr x \<Rightarrow>
          (case convert_positional fs vs of Inl e \<Rightarrow> Inl e | Inr xs \<Rightarrow> Inr (x # xs)))"
| "convert_positional _ _ = Inl (ValidationError ''the record has not the arity of the schema'')"
| "convert_named [] kvs = Inr []"
| "convert_named (RowField name t # fs) kvs =
     (case lookup_field kvs name of
        Inl e \<Rightarrow> Inl e
      | Inr v \<Rightarrow>
          (case convert t v of
             Inl e \<Rightarrow> Inl e
           | Inr x \<Rightarrow>
               (case convert_named fs kvs of Inl e \<Rightarrow> Inl e | Inr xs \<Rightarrow> Inr (x # xs))))"
| "convert_each t [] = Inr []"
| "convert_each t (v # vs) =
     (case convert t v of
        Inl e \<Rightarrow> Inl e
      | Inr x \<Rightarrow> (case convert_each t vs of Inl e \<Rightarrow> Inl e | Inr xs \<Rightarrow> Inr (x # xs)))"

text \<open>
  Modelled from the spec: compatibility of a value with a type, the check of \<open>verify\<close>: a null needs a nullable type, an atomic value a
  type it widens to, a composite the matching composite type with compatible parts.
\<close>

fun compatible :: "data_type \<Rightarrow> raw \<Rightarrow> bool"
and compatible_positional :: "row_field list \<Rightarrow> raw list \<Rightarrow> bool"
and compatible_named :: "row_field list \<Rightarrow> (string \<times> raw) list \<Rightarrow> bool"
and compatible_each :: "data_type \<Rightarrow> raw list \<Rightarrow> bool" where
  "compatible dt Null = nullable dt"
| "compatible (AtomicType t n) (Atom a p) = (widen a t = Some t)"
| "compatible (AtomicType t n) _ = False"
| "compatible (ListType t n) (Sequence vs) = compatible_each t vs"
| "compatible (ListType t n) (Tuple vs) = compatible_each t vs"
| "compatible (ListType t n) _ = False"
| "compatible (MapType k t n) (Mapping kvs) =
     (compatible_each k (map (\<lambda>key. Atom StringT key) (map fst kvs))
      \<and> compatible_each t (map snd kvs))"
| "compatible (MapType k t n) _ = False"
| "compatible (RowType fs n) (Tuple vs) = compatible_positional fs vs"
| "compatible (RowType fs n) (Sequence vs) = compatible_positional fs vs"
| "compatible (RowType fs n) (Row vs None) = compatible_positional fs vs"
| "compatible (RowType fs n) (Row vs (Some names)) = compatible_named fs (zip names vs)"
| "compatible (RowType fs n) (Mapping kvs) = compatible_named fs kvs"
| "compatible (RowType fs n) (Atom a p) = False"
| "compatible_positional [] [] = True"
| "compatible_positional (RowField name t # fs) (v # vs) =
     (compatible t v \<and> compatible_positional fs vs)"
| "compatible_positional _ _ = False"
| "compatible_named [] kvs = True"
| "compatible_named (RowField name t # fs) kvs =
     (case map_of kvs name of
        None \<Rightarrow> False
      | Some v \<Rightarrow> compatible t v \<and> compatible_named fs kvs)"
| "compatible_each t [] = True"
| "compatible_each t (v # vs) = (compatible t v \<and> compatible_each t vs)"

text \<open>
  Modelled from the spec: \<open>verify(schema, record)\<close> returns or fails with a
  \<open>ValidationError\<close>.
\<close>

definition verify :: "data_type \<Rightarrow> raw \<Rightarrow> error + unit" where
  "verify schema r =
     (if compatible schema r then Inr ()
      else Inl (ValidationError ''a value is not compatible with the type of its field''))"

section \<open>Path resolution\<close>

text \<open>
  Modelled from the spec: \<open>from_path\<close> and \<open>use_catalog\<close> pass the path and the catalog
  name to the Java table environment, and the resolver itself is not part of the
  sources at hand. The definitions of this section follow the specification of
  \<open>resolve\<close>: the path is parsed into one to three segments separated by dots; a segment
  wrapped in backticks is taken literally, dots included; a segment that is not
  wrapped and is a reserved word is a \<open>ParseError\<close>, as are an empty path, an
  unterminated backtick and more than three segments. The reserved words are a
  parameter.
\<close>

datatype segment = Escaped string | Plain string

text \<open>
  Modelled from the spec: \<open>scan_plain\<close> reads a segment that is not wrapped up to
  the next dot or the end, \<open>scan_escaped\<close> reads one after its opening backtick up to
  the closing backtick, which the end of the path or a dot must follow. \<open>acc\<close> holds the characters of the segment
  read so far, in reverse.
\<close>

fun scan_plain :: "string \<Rightarrow> string \<Rightarrow> error + segment list"
and scan_escaped :: "string \<Rightarrow> string \<Rightarrow> error + segment list"
and scan_segment :: "string \<Rightarrow> error + segment list" where
  "scan_segment [] = Inl (ParseError ''empty segment'')"
| "scan_segment (c # cs) =
     (if c = CHR 0x60 then scan_escaped [] cs
      else if c = CHR ''.'' then Inl (ParseError ''empty segment'')
      else scan_plain [c] cs)"
| "scan_plain acc [] = Inr [Plain (rev acc)]"
| "scan_plain acc (c # cs) =
     (if c = CHR ''.'' then
        (case scan_segment cs of Inl e \<Rightarrow> Inl e | Inr segs \<Rightarrow> Inr (Plain (rev acc) # segs))
      else if c = CHR 0x60 then Inl (ParseError ''backtick inside a segment'')
      else scan_plain (c # acc) cs)"
| "scan_escaped acc [] = Inl (ParseError ''unterminated backtick'')"
| "scan_escaped acc (c # cs) =
     (if c = CHR 0x60 then
        (case cs of
           [] \<Rightarrow> if acc = [] then Inl (ParseError ''empty segment'') else Inr [Escaped (rev acc)]
         | d # ds \<Rightarrow>
             if d = CHR ''.'' \<and> acc \<noteq> [] then
               (case scan_segment ds of
                  Inl e \<Rightarrow> Inl e | Inr segs \<Rightarrow> Inr (Escaped (rev acc) # segs))
             else Inl (ParseError ''a dot is expected after a closing backtick''))
      else scan_escaped (c # acc) cs)"

text \<open>
  Modelled from the spec: the name a segment stands for; a reserved word that is not
  wrapped in backticks is a \<open>ParseError\<close>.
\<close>

fun segment_name :: "(string \<Rightarrow> bool) \<Rightarrow> segment \<Rightarrow> error + string" where
  "segment_name reserved (Escaped s) = Inr s"
| "segment_name reserved (Plain s) =
     (if reserved s then Inl (ParseError ''a reserved word must be escaped'') else Inr s)"

text \<open>
  Modelled from the spec: a qualified path as parsed; the catalog and the database are
  optional, the object is always there.
\<close>

record qualified_path =
  catalog :: "string option"
  database :: "string option"
  object :: string

text \<open>
  Modelled from the spec: the parse of a path into one, two or three names; any other
  number of segments is a \<open>ParseError\<close>.
\<close>

definition parse_path :: "(string \<Rightarrow> bool) \<Rightarrow> string \<Rightarrow> error + qualified_path" where
  "parse_path reserved path =
     (case scan_segment path of
        Inl e \<Rightarrow> Inl e
      | Inr segs \<Rightarrow>
          (case mapM (segment_name reserved) segs of
             Inl e \<Rightarrow> Inl e
           | Inr [obj] \<Rightarrow> Inr \<lparr>catalog = None, database = None, object = obj\<rparr>
           | Inr [db, obj] \<Rightarrow> Inr \<lparr>catalog = None, database = Some db, object = obj\<rparr>
           | Inr [cat, db, obj] \<Rightarrow>
               Inr \<lparr>catalog = Some cat, database = Some db, object = obj\<rparr>
           | Inr _ \<Rightarrow> Inl (ParseError ''a path has one to three segments'')))"

text \<open>
  Modelled from the spec: \<open>resolve(path, current_catalog, current_database)\<close> is the
  parsed path with the session's catalog and database where the path names none.
\<close>

definition resolve ::
  "(string \<Rightarrow> bool) \<Rightarrow> string \<Rightarrow> string \<Rightarrow> string \<Rightarrow> error + (string \<times> string \<times> string)" where
  "resolve reserved path current_catalog current_database =
     (case parse_path reserved path of
        Inl e \<Rightarrow> Inl e
      | Inr q \<Rightarrow>
          Inr (case catalog q of None \<Rightarrow> current_catalog | Some c \<Rightarrow> c,
               case database q of None \<Rightarrow> current_database | Some d \<Rightarrow> d,
               object q))"

section \<open>Concrete helpers\<close>

text \<open>
  An instance of the helper functions, for evaluating \<open>from_elements\<close> and
  \<open>from_pandas\<close> at concrete inputs. An element is an expression or a raw value;
  verification, inference and conversion are the ones modelled above; the serializer
  writes the number of rows; the gateway calls succeed and return what they were given.
\<close>

datatype element = Expression string | Value raw

definition element_value :: "element \<Rightarrow> error + raw" where
  "element_value obj =
     (case obj of
        Value r \<Rightarrow> Inr r
      | Expression _ \<Rightarrow> Inl (SchemaError ''an expression is not a record''))"

definition reference_helpers :: "(element, engine, data_type, data_type \<times> nat list) helpers" where
  "reference_helpers =
     \<lparr>create_type_verifier =
        (\<lambda>dt name obj. case obj of
                          Value r \<Rightarrow> verify dt r
                        | Expression _ \<Rightarrow> Inl (ValidationError ''an expression is not a value'')),
      infer_schema_from_data =
        (\<lambda>objs names. case mapM element_value objs of
                          Inl e \<Rightarrow> Inl e
                        | Inr rs \<Rightarrow> infer_schema rs names),
      create_converter = (\<lambda>sch obj. Inr obj),
      to_sql_type =
        (\<lambda>sch obj. case obj of
                      Value r \<Rightarrow> convert sch r
                    | Expression _ \<Rightarrow> Inl (ValidationError ''an expression is not a value'')),
      is_Expression = (\<lambda>obj. case obj of Expression _ \<Rightarrow> True | Value _ \<Rightarrow> False),
      fromValues = (\<lambda>sch objs. Inr (sch, [])),
      serialize = (\<lambda>rows. ([length rows], None)),
      to_java_type = (\<lambda>sch. Inr sch),
      fromTableSource = (\<lambda>j bytes. Inr (j, bytes))\<rparr>"

definition reference_pandas_helpers ::
  "(atomic, string, data_type, data_type \<times> nat list) pandas_helpers" where
  "reference_pandas_helpers =
     \<lparr>from_arrow_type = (\<lambda>t n. Inr (AtomicType t n)),
      ArrowSerializer = (\<lambda>rt. Inr rt),
      serialize_arrow = (\<lambda>ser data. ([length data], None)),
      createArrowTableSource = (\<lambda>rt bytes. Inr (rt, bytes))\<rparr>"

definition empty_world :: "'e world" where
  "empty_world =
     \<lparr>temp_dirs = {}, temp_files = Map.empty, open_files = {}, next_name = 0, jvm_calls = []\<rparr>"

text \<open>
  The example of the docstring of \<open>from_elements\<close>: the elements \<open>[(1, 'Hi'), (2,
  'Hello')]\<close> and the schema \<open>ROW([FIELD("a", INT()), FIELD("b", STRING())])\<close>; the same
  elements with a string in the integer column of the second; an expression next to a
  value; and two integers for a scalar schema.
\<close>

definition docstring_elements :: "element list" where
  "docstring_elements =
     [Value (Tuple [Atom IntegerT ''1'', Atom StringT ''Hi'']),
      Value (Tuple [Atom IntegerT ''2'', Atom StringT ''Hello''])]"

definition docstring_schema :: data_type where
  "docstring_schema =
     RowType [RowField ''a'' (AtomicType IntegerT True),
              RowField ''b'' (AtomicType StringT True)] True"

definition ill_typed_elements :: "element list" where
  "ill_typed_elements =
     [Value (Tuple [Atom IntegerT ''1'', Atom StringT ''Hi'']),
      Value (Tuple [Atom StringT ''two'', Atom StringT ''Hello''])]"

definition mixed_elements :: "element list" where
  "mixed_elements =
     [Expression ''row(1, abc)'', Value (Tuple [Atom IntegerT ''2'', Atom StringT ''def''])]"






definition empty_frame :: "(atomic, string) data_frame" where
  "empty_frame =
     \<lparr>pa_schema = [\<lparr>field_name = ''x'', field_type = DoubleT, field_nullable = True\<rparr>],
      columns = [[]],
      len = 0\<rparr>"

section \<open>Lemmas\<close>

subsection \<open>Sequencing\<close>

lemma mapM_Inl: "x \<in> set xs \<Longrightarrow> f x = Inl e \<Longrightarrow> \<exists>e'. mapM f xs = Inl e'"
  by (induction xs) (auto split: sum.splits)

lemma mapM_cong: "(\<And>x. x \<in> set xs \<Longrightarrow> f x = g x) \<Longrightarrow> mapM f xs = mapM g xs"
  by (induction xs) (auto split: sum.splits)


lemma verify_obj_False: "verify_obj h schema False obj = Inr obj"
  by (simp add: verify_obj_def split: schema_arg.splits)

lemma infer_stage_Type:
  "infer_stage h elements (wrap_schema (Type dt)) =
     Inr (if is_RowType dt then dt else RowType [RowField ''value'' dt] True, elements)"
  by (simp add: infer_stage_def wrap_schema_def RowType_add_def)

lemma from_elements_no_Expression:
  assumes "infer_stage h elements (wrap_schema schema) = Inr (sch, es)"
      and "\<not> list_ex (is_Expression h) es"
  shows "from_elements h elements schema verify_schema w =
           (case verify_and_convert h schema verify_schema sch es of
              Inl e \<Rightarrow> (Inl e, w)
            | Inr rows \<Rightarrow> from_elements' h rows sch w)"
  using assms by (cases es) (auto simp: from_elements_def list_all_iff list_ex_iff)

lemma from_elements_all_Expression:
  assumes "infer_stage h elements (wrap_schema schema) = Inr (sch, es)"
      and "es \<noteq> []" "list_all (is_Expression h) es"
  shows "from_elements h elements schema verify_schema w =
           (case fromValues h sch es of
               Inl e \<Rightarrow> (Inl e, log_call (FromValues sch es) w)
             | Inr j_table \<Rightarrow> (Inr (Table j_table), log_call (FromValues sch es) w))"
  using assms by (simp add: from_elements_def)

lemma from_elements_mixed:
  assumes "infer_stage h elements (wrap_schema schema) = Inr (sch, es)"
      and "list_ex (is_Expression h) es" "\<not> list_all (is_Expression h) es"
  shows "from_elements h elements schema verify_schema w =
           (Inl (ValueError ''part of the elements are Expression, while the others are not''), w)"
  using assms by (simp add: from_elements_def)

lemma verify_and_convert_flag:
  assumes "\<forall>obj \<in> set es. verify_obj h schema True obj = Inr obj"
  shows "verify_and_convert h schema False sch es = verify_and_convert h schema True sch es"
  unfolding verify_and_convert_def using assms
  by (intro mapM_cong) (simp add: verify_obj_False)


subsection \<open>Widening and inference\<close>























subsection \<open>Conversion\<close>

lemma convert_named_map_of:
  "map_of kvs = map_of kvs' \<Longrightarrow> convert_named fs kvs = convert_named fs kvs'"
proof (induction fs)
  case Nil
  then show ?case by simp
next
  case (Cons f fs)
  then show ?case by (cases f) (simp split: option.splits sum.splits)
qed

lemma compatible_named_map_of:
  "map_of kvs = map_of kvs' \<Longrightarrow> compatible_named fs kvs = compatible_named fs kvs'"
proof (induction fs)
  case Nil
  then show ?case by simp
next
  case (Cons f fs)
  then show ?case by (cases f) (simp split: option.splits sum.splits)
qed

lemma compatible_convert:
  "(compatible dt v \<longrightarrow> (\<exists>e. convert dt v = Inr e))"
  "(compatible_positional fs vs \<longrightarrow> (\<exists>es. convert_positional fs vs = Inr es))"
  "(compatible_named fs kvs \<longrightarrow> (\<exists>es. convert_named fs kvs = Inr es))"
  "(compatible_each dt vs \<longrightarrow> (\<exists>es. convert_each dt vs = Inr es))"
proof (induction dt v and fs vs and fs kvs and dt vs
    rule: compatible_compatible_positional_compatible_named_compatible_each.induct)
qed (auto split: option.splits)

lemma convert_named_length: "convert_named fs kvs = Inr es \<Longrightarrow> length es = length fs"
proof (induction fs arbitrary: es)
  case Nil
  then show ?case by simp
next
  case (Cons f fs)
  then show ?case by (cases f) (auto split: option.splits sum.splits)
qed

subsection \<open>The result type of \<open>from_pandas\<close>\<close>


subsection \<open>Evaluation\<close>

lemmas world_defs =
  mkdtemp_def NamedTemporaryFile_def write_file_def close_file_def unlink_def log_call_def
  empty_world_def

lemmas from_elements_defs =
  from_elements_def infer_stage_def wrap_schema_def RowType_add_def verify_and_convert_def
  verify_obj_def from_elements'_def

lemmas reference_defs = reference_helpers_def element_value_def verify_def widen_def


section \<open>Theorems\<close>

text \<open>
  C10. \<open>StreamTableEnvironment.create\<close> raises a \<open>ValueError\<close>, and returns no
  environment, when it is called with no argument, with only \<open>table_config\<close>, with both
  \<open>table_config\<close> and \<open>environment_settings\<close>, or with settings that are not in
  streaming mode; for every other combination of arguments it returns a constructed
  \<open>StreamTableEnvironment\<close>.
\<close>

theorem create_rejects_exactly:
  "(rejected_arguments see tc es \<longrightarrow> is_ValueError (create see tc es))
   \<and> (\<not> rejected_arguments see tc es \<longrightarrow> (\<exists>j. create see tc es = Inr (StreamTableEnvironment j)))"
  by (cases see; cases tc; cases es)
     (simp_all add: create_def rejected_arguments_def is_ValueError_def
        j_stream_execution_environment_def)

theorem create_rejects_exactly_witness:
  "rejected_arguments (None :: unit option) (Some ()) (None :: unit environment_settings option)
   \<and> is_ValueError
        (create (None :: unit option) (Some ()) (None :: unit environment_settings option))
   \<and> \<not> rejected_arguments (Some ()) (None :: unit option)
         (Some \<lparr>is_streaming_mode = True, j_environment_settings = ()\<rparr>)
   \<and> (\<exists>j. create (Some ()) (None :: unit option)
              (Some \<lparr>is_streaming_mode = True, j_environment_settings = ()\<rparr>)
            = Inr (StreamTableEnvironment j))"
  using create_rejects_exactly [of "None :: unit option" "Some ()"
          "None :: unit environment_settings option"]
        create_rejects_exactly [of "Some ()" "None :: unit option"
          "Some \<lparr>is_streaming_mode = True, j_environment_settings = ()\<rparr>"]
  by (simp add: rejected_arguments_def)

text \<open>
  C1. For every element sequence and every schema argument (a \<open>RowType\<close>, a scalar
  \<open>DataType\<close>, or any other), if every element passes the verification that
  \<open>verify_schema=True\<close> performs, then \<open>from_elements\<close> with \<open>verify_schema=False\<close>
  gives the same result, converted rows and effects on the world included, as with
  \<open>verify_schema=True\<close>: the flag only leaves the check out.
\<close>

theorem verify_schema_only_elides_check:
  assumes "\<forall>obj \<in> set elements. verify_obj h schema True obj = Inr obj"
  shows "from_elements h elements schema False w = from_elements h elements schema True w"
proof (cases schema)
  case (Type dt)
  let ?sch = "if is_RowType dt then dt else RowType [RowField ''value'' dt] True"
  have st: "infer_stage h elements (wrap_schema schema) = Inr (?sch, elements)"
    by (simp only: Type infer_stage_Type)
  show ?thesis
  proof (cases "list_ex (is_Expression h) elements")
    case False
    then show ?thesis
      by (simp only: from_elements_no_Expression [OF st False]
            verify_and_convert_flag [OF assms])
  next
    case True
    then have ne: "elements \<noteq> []" by auto
    show ?thesis
    proof (cases "list_all (is_Expression h) elements")
      case all: True
      show ?thesis
        by (simp only: from_elements_all_Expression [OF st ne all])
    next
      case False
      show ?thesis
        by (simp only: from_elements_mixed [OF st True False])
    qed
  qed
next
  case NoSchema
  then have eq: "verify_and_convert h schema False = verify_and_convert h schema True"
    by (intro ext) (simp add: verify_and_convert_def verify_obj_def)
  show ?thesis unfolding from_elements_def eq ..
next
  case (Names ns)
  then have eq: "verify_and_convert h schema False = verify_and_convert h schema True"
    by (intro ext) (simp add: verify_and_convert_def verify_obj_def)
  show ?thesis unfolding from_elements_def eq ..
next
  case (Unsupported s)
  then have eq: "verify_and_convert h schema False = verify_and_convert h schema True"
    by (intro ext) (simp add: verify_and_convert_def verify_obj_def)
  show ?thesis unfolding from_elements_def eq ..
qed

theorem verify_schema_only_elides_check_witness:
  "list_all (\<lambda>obj. verify_obj reference_helpers (Type docstring_schema) True obj = Inr obj)
     docstring_elements
   \<and> from_elements reference_helpers docstring_elements (Type docstring_schema) False
         (empty_world :: element world)
     = from_elements reference_helpers docstring_elements (Type docstring_schema) True
         empty_world
   \<and> fst (from_elements reference_helpers docstring_elements (Type docstring_schema) False
         (empty_world :: element world))
     = Inr (Table (docstring_schema, [2]))"
proof -
  have pass: "\<forall>obj \<in> set docstring_elements.
      verify_obj reference_helpers (Type docstring_schema) True obj = Inr obj"
    by (simp add: docstring_elements_def docstring_schema_def verify_obj_def reference_defs)
  have run: "fst (from_elements reference_helpers docstring_elements (Type docstring_schema) True
         (empty_world :: element world)) = Inr (Table (docstring_schema, [2]))"
    by (simp add: docstring_elements_def docstring_schema_def from_elements_defs
          reference_defs world_defs)
  from verify_schema_only_elides_check [OF pass, of "empty_world :: element world"] pass run
  show ?thesis by (simp add: list_all_iff)
qed



text \<open>
  C5. When verification is on and some element of the sequence fails it, and the
  elements are not all expressions (an all-expression sequence goes to \<open>fromValues\<close>
  and is never verified), \<open>from_elements\<close> raises and leaves the world as it was: no
  temporary file is written, nothing is serialized and no call reaches the engine.
\<close>

theorem verification_failure_aborts_batch:
  assumes "obj \<in> set elements"
      and "verify_obj h schema True obj = Inl err"
      and "\<not> list_all (is_Expression h) elements"
  shows "\<exists>e. from_elements h elements schema True w = (Inl e, w)"
proof -
  from assms(2) obtain dt where dt: "schema = Type dt"
    by (cases schema) (simp_all add: verify_obj_def)
  let ?sch = "if is_RowType dt then dt else RowType [RowField ''value'' dt] True"
  have st: "infer_stage h elements (wrap_schema schema) = Inr (?sch, elements)"
    by (simp only: dt infer_stage_Type)
  have "\<exists>e. verify_and_convert h schema True ?sch elements = Inl e"
    unfolding verify_and_convert_def
    by (rule mapM_Inl [OF assms(1), where e = err]) (simp add: assms(2))
  then obtain e where e: "verify_and_convert h schema True ?sch elements = Inl e" ..
  show ?thesis
  proof (cases "list_ex (is_Expression h) elements")
    case False
    show ?thesis
      by (simp only: from_elements_no_Expression [OF st False] e sum.case) blast
  next
    case True
    show ?thesis
      by (simp only: from_elements_mixed [OF st True assms(3)]) blast
  qed
qed

theorem verification_failure_aborts_batch_witness:
  "Value (Tuple [Atom StringT ''two'', Atom StringT ''Hello'']) \<in> set ill_typed_elements
   \<and> verify_obj reference_helpers (Type docstring_schema) True
         (Value (Tuple [Atom StringT ''two'', Atom StringT ''Hello'']))
     = Inl (ValidationError ''a value is not compatible with the type of its field'')
   \<and> \<not> list_all (is_Expression reference_helpers) ill_typed_elements
   \<and> (\<exists>e. from_elements reference_helpers ill_typed_elements (Type docstring_schema) True
              (empty_world :: element world) = (Inl e, empty_world))"
proof -
  have a: "Value (Tuple [Atom StringT ''two'', Atom StringT ''Hello'']) \<in> set ill_typed_elements"
    by (simp add: ill_typed_elements_def)
  have b: "verify_obj reference_helpers (Type docstring_schema) True
         (Value (Tuple [Atom StringT ''two'', Atom StringT ''Hello'']))
     = Inl (ValidationError ''a value is not compatible with the type of its field'')"
    by (simp add: docstring_schema_def verify_obj_def reference_defs)
  have c: "\<not> list_all (is_Expression reference_helpers) ill_typed_elements"
    by (simp add: ill_typed_elements_def reference_defs)
  from verification_failure_aborts_batch [OF a b c, of "empty_world :: element world"] a b c
  show ?thesis by simp
qed

text \<open>
  C9, as stated, fails: with a schema argument that is neither \<open>None\<close>, a list, a tuple
  nor a \<open>DataType\<close>, line 1436 raises a \<open>TypeError\<close> before the elements are looked at,
  also when one of them is an expression and another is not.
\<close>

theorem mixed_Expression_counterexample:
  "list_ex (is_Expression reference_helpers) mixed_elements
   \<and> \<not> list_all (is_Expression reference_helpers) mixed_elements
   \<and> from_elements reference_helpers mixed_elements (Unsupported ''str'') True
         (empty_world :: element world)
     = (Inl (TypeError ''schema should be RowType, list, tuple or None''), empty_world)
   \<and> \<not> is_ValueError (fst (from_elements reference_helpers mixed_elements (Unsupported ''str'')
         True (empty_world :: element world)))"
  by (simp add: mixed_elements_def reference_defs from_elements_def infer_stage_def
        wrap_schema_def is_ValueError_def)

text \<open>
  C9, amended. Whenever lines 1410 to 1440 do not raise, as is the case for every
  \<open>DataType\<close> schema, and among the elements as they are after line 1440 one is an
  expression and another is not, \<open>from_elements\<close> raises a \<open>ValueError\<close> and leaves the
  world as it was.
\<close>

theorem mixed_Expression_ValueError:
  assumes "infer_stage h elements (wrap_schema schema) = Inr (sch, es)"
      and "a \<in> set es" "is_Expression h a"
      and "b \<in> set es" "\<not> is_Expression h b"
  shows "\<exists>msg. from_elements h elements schema verify_schema w = (Inl (ValueError msg), w)"
  using assms by (auto simp: from_elements_def list_all_iff list_ex_iff)

theorem mixed_Expression_ValueError_witness:
  "infer_stage reference_helpers mixed_elements (wrap_schema (Type docstring_schema))
     = Inr (docstring_schema, mixed_elements)
   \<and> Expression ''row(1, abc)'' \<in> set mixed_elements
   \<and> is_Expression reference_helpers (Expression ''row(1, abc)'')
   \<and> Value (Tuple [Atom IntegerT ''2'', Atom StringT ''def'']) \<in> set mixed_elements
   \<and> \<not> is_Expression reference_helpers (Value (Tuple [Atom IntegerT ''2'', Atom StringT ''def'']))
   \<and> (\<exists>msg. from_elements reference_helpers mixed_elements (Type docstring_schema) True
                (empty_world :: element world) = (Inl (ValueError msg), empty_world))"
proof -
  have st: "infer_stage reference_helpers mixed_elements (wrap_schema (Type docstring_schema))
     = Inr (docstring_schema, mixed_elements)"
    by (simp add: infer_stage_Type docstring_schema_def)
  have a: "Expression ''row(1, abc)'' \<in> set mixed_elements"
    and b: "Value (Tuple [Atom IntegerT ''2'', Atom StringT ''def'']) \<in> set mixed_elements"
    by (simp_all add: mixed_elements_def)
  have ea: "is_Expression reference_helpers (Expression ''row(1, abc)'')"
    and eb: "\<not> is_Expression reference_helpers
               (Value (Tuple [Atom IntegerT ''2'', Atom StringT ''def'']))"
    by (simp_all add: reference_defs)
  from mixed_Expression_ValueError [OF st a ea b eb, of True "empty_world :: element world"]
    st a b ea eb
  show ?thesis by simp
qed




text \<open>
  C4. The temporary file that \<open>_from_elements\<close> creates is closed and unlinked on every
  path, whatever the serializer and the gateway calls do; the directory that
  \<open>tempfile.mkdtemp()\<close> creates for it is still there when the function returns or
  raises, as after the docstring's call of \<open>from_elements\<close>. In \<open>from_pandas\<close> the
  slices are computed between the creation of the file and the \<open>try\<close>: for a frame
  with no rows \<open>range(0, 0, 0)\<close> raises \<open>ValueError\<close> there, and the file stays in place
  and open.
\<close>

theorem temporary_directory_is_never_removed:
  "temp_dirs (snd (from_elements' h rows sch w)) = insert (next_name w) (temp_dirs w)
   \<and> temp_files (snd (from_elements' h rows sch w)) (Suc (next_name w)) = None
   \<and> Suc (next_name w) \<notin> open_files (snd (from_elements' h rows sch w))
   \<and> snd (from_elements reference_helpers docstring_elements (Type docstring_schema) True
            (empty_world :: element world))
     = \<lparr>temp_dirs = {0}, temp_files = Map.empty, open_files = {}, next_name = 2,
         jvm_calls = [ReadPythonObjects 1 [2]]\<rparr>
   \<and> from_pandas reference_pandas_helpers (DataFrame empty_frame) NoPandasSchema 1
         (empty_world :: element world)
     = (Inl (ValueError ''range() arg 3 must not be zero''),
        \<lparr>temp_dirs = {0}, temp_files = [1 \<mapsto> []], open_files = {1}, next_name = 2,
           jvm_calls = []\<rparr>)"
proof -
  have a: "temp_dirs (snd (from_elements' h rows sch w)) = insert (next_name w) (temp_dirs w)"
    by (simp add: from_elements'_def world_defs Let_def
          split: prod.splits option.splits sum.splits)
  have b: "temp_files (snd (from_elements' h rows sch w)) (Suc (next_name w)) = None
      \<and> Suc (next_name w) \<notin> open_files (snd (from_elements' h rows sch w))"
    by (simp add: from_elements'_def world_defs Let_def
          split: prod.splits option.splits sum.splits)
  have c: "snd (from_elements reference_helpers docstring_elements (Type docstring_schema) True
            (empty_world :: element world))
     = \<lparr>temp_dirs = {0}, temp_files = Map.empty, open_files = {}, next_name = 2,
         jvm_calls = [ReadPythonObjects 1 [2]]\<rparr>"
    by (simp add: docstring_elements_def docstring_schema_def from_elements_defs
          reference_defs world_defs)
  have d: "from_pandas reference_pandas_helpers (DataFrame empty_frame) NoPandasSchema 1
         (empty_world :: element world)
     = (Inl (ValueError ''range() arg 3 must not be zero''),
        \<lparr>temp_dirs = {0}, temp_files = [1 \<mapsto> []], open_files = {1}, next_name = 2,
           jvm_calls = []\<rparr>)"
    by (simp add: from_pandas_def result_type_def reference_pandas_helpers_def empty_frame_def
          pdf_data_def range0_def world_defs)
  from a b c d show ?thesis by blast
qed

text \<open>
  C6. For every current catalog \<open>C\<close> and current database \<open>D\<close>, and whatever the reserved
  words are as long as \<open>tab1\<close>, \<open>db1\<close> and \<open>cat1\<close> are not among them, \<open>tab1\<close> resolves
  to \<open>(C, D, tab1)\<close>, \<open>db1.tab1\<close> to \<open>(C, db1, tab1)\<close> and \<open>cat1.db1.tab1\<close> to
  \<open>(cat1, db1, tab1)\<close>.
\<close>

theorem resolve_documented_table:
  assumes "\<not> reserved ''tab1''" "\<not> reserved ''db1''" "\<not> reserved ''cat1''"
  shows "resolve reserved ''tab1'' C D = Inr (C, D, ''tab1'')
       \<and> resolve reserved ''db1.tab1'' C D = Inr (C, ''db1'', ''tab1'')
       \<and> resolve reserved ''cat1.db1.tab1'' C D = Inr (''cat1'', ''db1'', ''tab1'')"
  using assms by (simp add: resolve_def parse_path_def)

theorem resolve_documented_table_witness:
  "\<not> (\<lambda>s. s = ''table'') ''tab1'' \<and> \<not> (\<lambda>s. s = ''table'') ''db1''
   \<and> \<not> (\<lambda>s. s = ''table'') ''cat1''
   \<and> resolve (\<lambda>s. s = ''table'') ''tab1'' ''default_catalog'' ''default_database''
       = Inr (''default_catalog'', ''default_database'', ''tab1'')
   \<and> resolve (\<lambda>s. s = ''table'') ''db1.tab1'' ''default_catalog'' ''default_database''
       = Inr (''default_catalog'', ''db1'', ''tab1'')
   \<and> resolve (\<lambda>s. s = ''table'') ''cat1.db1.tab1'' ''default_catalog'' ''default_database''
       = Inr (''cat1'', ''db1'', ''tab1'')"
  using resolve_documented_table [of "\<lambda>s. s = ''table''" "''default_catalog''"
          "''default_database''"]
  by simp



text \<open>
  C8. For every row schema and every mapping-shaped record that passes verification,
  a record with the same keys and values in any other key order passes verification
  too, and both are converted to the same row, which has the schema's fields in the
  schema's order.
\<close>

theorem convert_independent_of_key_order:
  assumes "verify (RowType fs n) (Mapping kvs) = Inr ()"
      and "map_of kvs' = map_of kvs"
  shows "verify (RowType fs n) (Mapping kvs') = Inr ()
       \<and> (\<exists>row. convert (RowType fs n) (Mapping kvs) = Inr (ERow row)
                \<and> convert (RowType fs n) (Mapping kvs') = Inr (ERow row)
                \<and> length row = length fs)"
proof -
  from assms(1) have c: "compatible_named fs kvs"
    by (simp add: verify_def split: if_splits)
  then have c': "compatible_named fs kvs'"
    using compatible_named_map_of [OF assms(2), of fs] by simp
  from c obtain row where row: "convert_named fs kvs = Inr row"
    using compatible_convert(3) by blast
  then have row': "convert_named fs kvs' = Inr row"
    using convert_named_map_of [OF assms(2), of fs] by simp
  from row have "length row = length fs" by (rule convert_named_length)
  with c' row row' show ?thesis by (simp add: verify_def)
qed

theorem convert_independent_of_key_order_witness:
  "verify docstring_schema (Mapping [(''a'', Atom IntegerT ''1''), (''b'', Atom StringT ''Hi'')])
     = Inr ()
   \<and> map_of [(''b'', Atom StringT ''Hi''), (''a'', Atom IntegerT ''1'')]
     = map_of [(''a'', Atom IntegerT ''1''), (''b'', Atom StringT ''Hi'')]
   \<and> convert docstring_schema (Mapping [(''b'', Atom StringT ''Hi''), (''a'', Atom IntegerT ''1'')])
     = Inr (ERow [EAtom IntegerT ''1'', EAtom StringT ''Hi''])
   \<and> convert docstring_schema (Mapping [(''a'', Atom IntegerT ''1''), (''b'', Atom StringT ''Hi'')])
     = Inr (ERow [EAtom IntegerT ''1'', EAtom StringT ''Hi''])"
proof -
  have v: "verify (RowType [RowField ''a'' (AtomicType IntegerT True),
              RowField ''b'' (AtomicType StringT True)] True)
             (Mapping [(''a'', Atom IntegerT ''1''), (''b'', Atom StringT ''Hi'')]) = Inr ()"
    by (simp add: verify_def widen_def)
  have m: "map_of [(''b'', Atom StringT ''Hi''), (''a'', Atom IntegerT ''1'')]
     = map_of [(''a'', Atom IntegerT ''1''), (''b'', Atom StringT ''Hi'')]"
    by (auto simp: fun_eq_iff)
  from convert_independent_of_key_order [OF v m] v m
  show ?thesis by (simp add: docstring_schema_def)
qed

end
